theory Spec2Isabelle
  imports Complex_Main "HOL-Library.Multiset" "HOL-Library.Char_ord" "HOL-Library.List_Lexorder"
begin

section \<open>The GDP ETL pipeline: data model\<close>

text \<open>
  The two scripts \<^verbatim>\<open>etl_project_gdp.py\<close> (history kept in a JSON file) and
  \<^verbatim>\<open>etl_project_gdp_with_sql.py\<close> (history kept in an SQLite table) are embedded
  here. A pandas data frame is a list of rows. Conventions of the model:
  \<^item> a \<open>char\<close> stands for one code point below 256 of a Python string;
  \<^item> the GDP columns hold exact rationals where the scripts hold IEEE doubles, so
    comparisons are exact and arithmetic is the exact counterpart of the float
    operation (infinities and NaN that survive \<^verbatim>\<open>dropna\<close> are outside the model);
  \<^item> \<^verbatim>\<open>Processed_Time\<close> is the wall clock truncated to whole seconds, a \<open>nat\<close>;
    the clock is an argument of the functions that read it;
  \<^item> \<^verbatim>\<open>pd.to_numeric(..., errors='coerce')\<close> belongs to pandas, not to the
    scripts: it is the argument \<open>to_numeric\<close>, with \<open>None\<close> for NaN;
  \<^item> the process log is the list of messages handed to \<^verbatim>\<open>log_progress\<close>, oldest
    first, without the time prefix each line gets in the file;
  \<^item> \<^verbatim>\<open>extract\<close> (the download and the walk over the HTML table) is not embedded: the
    frame it returns, one pair of country and raw GDP text per table row, is the input
    of the transforms.
\<close>

type_synonym raw_row = "string \<times> string"
  \<comment> \<open>the columns Country and GDP_USD_million (text) of the frame \<^verbatim>\<open>extract\<close> returns\<close>

record gdp_row =
  Country :: string
  Region :: string
  GDP_USD_billion :: rat
  Processed_Time :: nat

record json_row = gdp_row +
  GDP_USD_million :: rat

type_synonym process_log = "string list"

definition log_progress :: "string \<Rightarrow> process_log \<Rightarrow> process_log" where
  "log_progress message lg = lg @ [message]"

subsection \<open>Rendering a count inside a log message\<close>

fun str_nat :: "nat \<Rightarrow> string" where
  "str_nat n = (if n < 10 then [''0123456789'' ! n]
                else str_nat (n div 10) @ [''0123456789'' ! (n mod 10)])"

declare str_nat.simps [simp del]

section \<open>Cleaning the GDP text\<close>

text \<open>
  \<^verbatim>\<open>str.replace(r'[\(\[].*?[\)\]]', '', regex=True)\<close>: every leftmost match of an
  opening bracket, as few characters other than a line feed as possible, and a closing
  bracket (of either shape) is deleted; the scan resumes after the match.
\<close>

definition is_open :: "char \<Rightarrow> bool" where
  "is_open c = (c = CHR ''('' \<or> c = CHR ''['')"

definition is_close :: "char \<Rightarrow> bool" where
  "is_close c = (c = CHR '')'' \<or> c = CHR '']'')"

definition is_newline :: "char \<Rightarrow> bool" where
  "is_newline c = (c = CHR 0x0A)"

text \<open>What is left of the text behind an opening bracket once the match is complete;
  \<open>None\<close> when a line feed or the end comes before any closing bracket.\<close>

fun find_close :: "string \<Rightarrow> string option" where
  "find_close [] = None"
| "find_close (c # cs) =
     (if is_close c then Some cs
      else if is_newline c then None
      else find_close cs)"

function strip_brackets :: "string \<Rightarrow> string" where
  "strip_brackets [] = []"
| "strip_brackets (c # cs) =
     (if is_open c then
        (case find_close cs of
           Some rest \<Rightarrow> strip_brackets rest
         | None \<Rightarrow> c # strip_brackets cs)
      else c # strip_brackets cs)"
  by pat_completeness auto
termination
proof (relation "measure length")
  have shorter: "length rest < length cs" if "find_close cs = Some rest" for cs rest
    using that by (induction cs) (auto split: if_splits)
  fix c cs rest
  assume "is_open c" "find_close cs = Some rest"
  then show "(rest, c # cs) \<in> measure length"
    using shorter [of cs rest] by simp
qed auto

text \<open>\<^verbatim>\<open>str.strip()\<close>: the white space of \<^verbatim>\<open>str.isspace\<close> among the code points
  below 256.\<close>

definition is_space :: "char \<Rightarrow> bool" where
  "is_space c = ((of_char c :: nat) \<in> {9, 10, 11, 12, 13, 28, 29, 30, 31, 32, 133, 160})"

definition strip :: "string \<Rightarrow> string" where
  "strip s = rev (dropWhile is_space (rev (dropWhile is_space s)))"

definition remove_commas :: "string \<Rightarrow> string" where
  "remove_commas s = filter (\<lambda>c. c \<noteq> CHR '','') s"

text \<open>Lines 140 to 142 of the JSON script (146 to 149 of the SQL script): the text that
  reaches \<^verbatim>\<open>pd.to_numeric\<close>.\<close>

definition clean_gdp :: "string \<Rightarrow> string" where
  "clean_gdp s = remove_commas (strip (strip_brackets s))"

text \<open>The value \<^verbatim>\<open>pd.to_numeric\<close> gives for one cell, \<open>None\<close> for NaN.\<close>

definition gdp_value :: "(string \<Rightarrow> rat option) \<Rightarrow> string \<Rightarrow> rat option" where
  "gdp_value to_numeric raw = to_numeric (clean_gdp raw)"

text \<open>\<^verbatim>\<open>dropna(subset=['GDP_USD_million'])\<close>: the rows whose value is NaN go, the others
  keep their order.\<close>

fun dropna :: "(string \<times> rat option) list \<Rightarrow> (string \<times> rat) list" where
  "dropna [] = []"
| "dropna ((country, None) # rows) = dropna rows"
| "dropna ((country, Some v) # rows) = (country, v) # dropna rows"

subsection \<open>A numeric parser to run the pipeline on concrete text\<close>

text \<open>
  A stand-in for \<^verbatim>\<open>pd.to_numeric\<close> on signed decimal literals (an optional sign, digits,
  an optional fraction), on which pandas returns the number written. Every other text is
  NaN here; pandas accepts more (exponents, surrounding blanks). The general theorems hold
  for every parser; this one instantiates them.
\<close>

definition is_digit :: "char \<Rightarrow> bool" where
  "is_digit c = (c \<in> set ''0123456789'')"

definition digits_value :: "string \<Rightarrow> nat" where
  "digits_value ds = foldl (\<lambda>acc c. 10 * acc + (of_char c - 48)) 0 ds"

definition unsigned_decimal :: "string \<Rightarrow> rat option" where
  "unsigned_decimal s =
     (let ip = takeWhile is_digit s; rest = dropWhile is_digit s in
      if ip = [] then None
      else case rest of
          [] \<Rightarrow> Some (of_nat (digits_value ip))
        | d # fp \<Rightarrow>
            if d = CHR ''.'' \<and> list_all is_digit fp
            then Some (of_nat (digits_value ip) + of_nat (digits_value fp) / 10 ^ length fp)
            else None)"

definition to_numeric_decimal :: "string \<Rightarrow> rat option" where
  "to_numeric_decimal s =
     (case s of
        [] \<Rightarrow> None
      | c # cs \<Rightarrow>
          if c = CHR ''-'' then map_option uminus (unsigned_decimal cs)
          else if c = CHR ''+'' then unsigned_decimal cs
          else unsigned_decimal s)"

section \<open>Unit conversion and region mapping\<close>

text \<open>\<^verbatim>\<open>Series.round(2)\<close> is numpy's rounding: scale by 100, round to the nearest integer
  with ties to the even one, scale back.\<close>

definition rint :: "rat \<Rightarrow> int" where
  "rint x =
     (let f = \<lfloor>x\<rfloor>; d = x - of_int f in
      if d < 1 / 2 then f
      else if 1 / 2 < d then f + 1
      else if even f then f else f + 1)"

definition round2 :: "rat \<Rightarrow> rat" where
  "round2 x = of_int (rint (x * 100)) / 100"

text \<open>\<^verbatim>\<open>df['Country'].map(region_map).fillna('Unknown')\<close>, and \<^verbatim>\<open>'Unknown'\<close> for every
  row when the file \<^verbatim>\<open>Countries_Regions.json\<close> does not exist (\<open>None\<close>).\<close>

definition lookup_region :: "(string \<rightharpoonup> string) option \<Rightarrow> string \<Rightarrow> string" where
  "lookup_region region_map country =
     (case region_map of
        None \<Rightarrow> ''Unknown''
      | Some m \<Rightarrow> (case m country of None \<Rightarrow> ''Unknown'' | Some region \<Rightarrow> region))"

text \<open>\<^verbatim>\<open>sort_values(by=..., ascending=False)\<close> and SQL's \<^verbatim>\<open>ORDER BY ... DESC\<close>: descending by the
  key. Neither library fixes the order of rows with equal keys; the model keeps them in their
  previous order, and no theorem below that is about the scripts depends on that choice.\<close>

definition sort_desc :: "('a \<Rightarrow> rat) \<Rightarrow> 'a list \<Rightarrow> 'a list" where
  "sort_desc key rows = sort_key (\<lambda>r. - key r) rows"

section \<open>Transform\<close>

definition make_json_row :: "nat \<Rightarrow> (string \<rightharpoonup> string) option \<Rightarrow> string \<times> rat \<Rightarrow> json_row" where
  "make_json_row now region_map cv =
     \<lparr>Country = fst cv, Region = lookup_region region_map (fst cv),
      GDP_USD_billion = round2 (snd cv / 1000), Processed_Time = now,
      GDP_USD_million = snd cv\<rparr>"

text \<open>\<^verbatim>\<open>transform\<close> of \<^verbatim>\<open>etl_project_gdp.py\<close>.\<close>

definition transform ::
  "(string \<Rightarrow> rat option) \<Rightarrow> nat \<Rightarrow> (string \<rightharpoonup> string) option \<Rightarrow> raw_row list \<Rightarrow>
   process_log \<Rightarrow> json_row list \<times> process_log" where
  "transform to_numeric now region_map df lg =
     (let lg1 = log_progress ''Transform phase Started'' lg;
          numeric = map (\<lambda>(country, raw). (country, gdp_value to_numeric raw)) df;
          initial_count = length numeric;
          kept = dropna numeric;
          filtered_count = initial_count - length kept;
          lg2 = (if filtered_count > 0
                 then log_progress (''Transform: Filtered out '' @ str_nat filtered_count
                        @ '' rows with invalid GDP data'') lg1
                 else lg1);
          rows = map (make_json_row now region_map) kept;
          sorted_rows = sort_desc GDP_USD_billion rows
      in (sorted_rows, log_progress ''Transform phase Ended'' lg2))"

definition make_gdp_row :: "nat \<Rightarrow> (string \<rightharpoonup> string) option \<Rightarrow> string \<times> rat \<Rightarrow> gdp_row" where
  "make_gdp_row now region_map cv =
     \<lparr>Country = fst cv, Region = lookup_region region_map (fst cv),
      GDP_USD_billion = round2 (snd cv / 1000), Processed_Time = now\<rparr>"

text \<open>\<^verbatim>\<open>transform\<close> of \<^verbatim>\<open>etl_project_gdp_with_sql.py\<close>: no count, no sort, and the
  column GDP_USD_million is projected away.\<close>

definition transform_with_sql ::
  "(string \<Rightarrow> rat option) \<Rightarrow> nat \<Rightarrow> (string \<rightharpoonup> string) option \<Rightarrow> raw_row list \<Rightarrow>
   process_log \<Rightarrow> gdp_row list \<times> process_log" where
  "transform_with_sql to_numeric now region_map df lg =
     (let lg1 = log_progress ''Transform phase Started'' lg;
          numeric = map (\<lambda>(country, raw). (country, gdp_value to_numeric raw)) df;
          kept = dropna numeric;
          rows = map (make_gdp_row now region_map) kept
      in (rows, log_progress ''Transform phase Ended'' lg1))"

section \<open>Load\<close>

text \<open>
  The history file at \<^verbatim>\<open>JSON_PATH\<close>: absent, present but rejected by \<^verbatim>\<open>pd.read_json\<close>
  (with the text of the exception it raises), or holding an array of records. Writing a
  frame and reading it back is taken to give the frame back.
\<close>

datatype json_file = Missing | Unreadable string | Records "json_row list"

text \<open>\<^verbatim>\<open>load\<close> of \<^verbatim>\<open>etl_project_gdp.py\<close>. In the \<^verbatim>\<open>except\<close> branch \<^verbatim>\<open>df\<close> is still the
  new frame, since \<^verbatim>\<open>pd.read_json\<close> raised before the concatenation.\<close>

definition load :: "json_row list \<Rightarrow> string \<Rightarrow> json_file \<Rightarrow> process_log \<Rightarrow> json_file \<times> process_log" where
  "load df path file lg =
     (let lg1 = log_progress ''Load phase Started'' lg;
          (df', lg2) =
            (case file of
               Missing \<Rightarrow> (df, lg1)
             | Records existing_df \<Rightarrow>
                 (existing_df @ df,
                  log_progress (''Load: New records appended to existing data in '' @ path) lg1)
             | Unreadable e \<Rightarrow>
                 (df,
                  log_progress (''Load Warning: Failed to load history, starting new file. '' @ e) lg1))
      in (Records df',
          log_progress (''Load phase Ended: Total '' @ str_nat (length df') @ '' records stored'') lg2))"

text \<open>
  The SQLite database: \<open>None\<close> while the table does not exist, else its rows in
  insertion order (the \<^verbatim>\<open>id\<close> column, which no query reads, is left out).
  \<^verbatim>\<open>load_to_db\<close> creates the table if needed and appends the frame.
\<close>

type_synonym sqlite_db = "gdp_row list option"

definition load_to_db :: "gdp_row list \<Rightarrow> string \<Rightarrow> sqlite_db \<Rightarrow> process_log \<Rightarrow> sqlite_db \<times> process_log" where
  "load_to_db df db_name db lg =
     (let lg1 = log_progress ''Load to DB Started'' lg;
          existing = (case db of None \<Rightarrow> [] | Some rows \<Rightarrow> rows)
      in (Some (existing @ df), log_progress (''Load to DB Ended: '' @ db_name) lg1))"

section \<open>Analysis\<close>

datatype error = KeyError string | ValueError string | DatabaseError string

text \<open>What an analysis prints: the reference time, the table of the countries at or above
  100 (Country, Region, GDP_USD_billion) and the table of the averages per region, each as
  the frame the printing loop iterates over.\<close>

record analysis =
  latest_time :: "nat option"
  high_gdp_df :: "(string \<times> string \<times> rat) list"
  region_avg :: "(string \<times> rat) list"

definition mean :: "rat list \<Rightarrow> rat" where
  "mean xs = sum_list xs / of_nat (length xs)"

text \<open>\<^verbatim>\<open>Series.nlargest(n)\<close>: the \<open>n\<close> largest values, all of them when there are fewer.\<close>

definition nlargest :: "nat \<Rightarrow> rat list \<Rightarrow> rat list" where
  "nlargest n xs = take n (sort_desc (\<lambda>v. v) xs)"

text \<open>Lines 209 and 210: the rows of the greatest \<^verbatim>\<open>Processed_Time\<close>.\<close>

definition latest_df :: "('a gdp_row_scheme) list \<Rightarrow> ('a gdp_row_scheme) list" where
  "latest_df df =
     (let latest = Max (set (map Processed_Time df))
      in filter (\<lambda>r. Processed_Time r = latest) df)"

text \<open>\<^verbatim>\<open>groupby('Region')\<close> lists each region once, in increasing order of the name.\<close>

definition group_keys :: "string list \<Rightarrow> string list" where
  "group_keys regions = sort (remdups regions)"

text \<open>
  \<^verbatim>\<open>run_analysis\<close> of \<^verbatim>\<open>etl_project_gdp.py\<close>, on the frame \<^verbatim>\<open>pd.read_json(JSON_PATH)\<close>
  gives. The frame read from an empty array has no column, so line 209 raises
  \<^verbatim>\<open>KeyError\<close> on it. The rows at or above 100 are not sorted here; the averages are
  not rounded (the printing loop formats them with two decimals).
\<close>

definition run_analysis :: "json_row list \<Rightarrow> process_log \<Rightarrow> (error + analysis) \<times> process_log" where
  "run_analysis df lg =
     (let lg1 = log_progress ''Analysis phase Started'' lg in
      if df = [] then (Inl (KeyError ''Processed_Time''), lg1)
      else
        let latest = latest_df df;
            high = map (\<lambda>r. (Country r, Region r, GDP_USD_billion r))
                     (filter (\<lambda>r. 100 \<le> GDP_USD_billion r) latest);
            region_avg_series =
              map (\<lambda>g. (g, mean (nlargest 5
                      (map GDP_USD_billion (filter (\<lambda>r. Region r = g) latest)))))
                (group_keys (map Region latest));
            avg = sort_desc snd region_avg_series
        in (Inr \<lparr>latest_time = Some (Max (set (map Processed_Time df))),
                  high_gdp_df = high, region_avg = avg\<rparr>,
            log_progress ''Analysis phase Ended'' lg1))"

text \<open>Lines 269 to 271 of the entry point: the analysis runs only when the history file
  exists; \<open>None\<close> is the phase skipped.\<close>

definition analysis_phase :: "json_file \<Rightarrow> process_log \<Rightarrow> (error + analysis option) \<times> process_log" where
  "analysis_phase file lg =
     (case file of
        Missing \<Rightarrow> (Inr None, lg)
      | Unreadable e \<Rightarrow> (Inl (ValueError e), lg)
      | Records history_df \<Rightarrow>
          (case run_analysis history_df lg of
             (Inl e, lg') \<Rightarrow> (Inl e, lg')
           | (Inr a, lg') \<Rightarrow> (Inr (Some a), lg')))"

text \<open>SQLite's \<^verbatim>\<open>ROUND(x, 2)\<close>: ties go away from zero.\<close>

definition sqlite_round2 :: "rat \<Rightarrow> rat" where
  "sqlite_round2 x =
     (if 0 \<le> x then of_int \<lfloor>x * 100 + 1 / 2\<rfloor> / 100
      else - (of_int \<lfloor>- x * 100 + 1 / 2\<rfloor> / 100))"

text \<open>The common table expression \<^verbatim>\<open>RankedGDP\<close>: Region, GDP_USD_billion and the row
  number inside the region, counted from 1 in descending order of GDP_USD_billion.\<close>

definition ranked_gdp :: "gdp_row list \<Rightarrow> (string \<times> rat \<times> nat) list" where
  "ranked_gdp rows =
     concat (map (\<lambda>g.
         let part = sort_desc (\<lambda>v. v) (map GDP_USD_billion (filter (\<lambda>r. Region r = g) rows))
         in map (\<lambda>(rank, v). (g, v, rank)) (enumerate 1 part))
       (group_keys (map Region rows)))"

text \<open>
  \<^verbatim>\<open>run_sql_analysis\<close> of \<^verbatim>\<open>etl_project_gdp_with_sql.py\<close>. The first query raises when
  the table does not exist. On a table without rows \<^verbatim>\<open>MAX\<close> is NULL, which no
  \<^verbatim>\<open>Processed_Time\<close> equals, and both tables come out empty.
\<close>

definition run_sql_analysis :: "string \<Rightarrow> sqlite_db \<Rightarrow> process_log \<Rightarrow> (error + analysis) \<times> process_log" where
  "run_sql_analysis table_name db lg =
     (let lg1 = log_progress ''Analysis phase Started'' lg in
      case db of
        None \<Rightarrow> (Inl (DatabaseError (''no such table: '' @ table_name)), lg1)
      | Some rows \<Rightarrow>
          let latest = (if rows = [] then None else Some (Max (set (map Processed_Time rows))));
              selected = filter (\<lambda>r. Some (Processed_Time r) = latest) rows;
              high = sort_desc (\<lambda>(c, g, v). v)
                       (map (\<lambda>r. (Country r, Region r, GDP_USD_billion r))
                          (filter (\<lambda>r. 100 \<le> GDP_USD_billion r) selected));
              top = filter (\<lambda>(g, v, rank). rank \<le> 5) (ranked_gdp selected);
              averages =
                map (\<lambda>g. (g, sqlite_round2 (mean
                        (map (\<lambda>(g', v, rank). v) (filter (\<lambda>(g', v, rank). g' = g) top)))))
                  (group_keys (map (\<lambda>(g, v, rank). g) top));
              avg = sort_desc snd averages
          in (Inr \<lparr>latest_time = latest, high_gdp_df = high, region_avg = avg\<rparr>,
              log_progress ''Analysis phase Ended'' lg1))"

section \<open>Reference notions for the statements\<close>

text \<open>
  Cleaning by hand: a raw value read as a sequence of plain stretches and bracketed
  asides. An aside is an opening bracket, a text free of closing brackets and line
  feeds, and a closing bracket; a plain stretch has no opening bracket. Stripping by hand
  keeps the plain stretches, trims the result and deletes the commas.
\<close>

datatype segment = Plain string | Aside char string char

fun written :: "segment \<Rightarrow> string" where
  "written (Plain s) = s"
| "written (Aside opening inner closing) = opening # inner @ [closing]"

fun manual_kept :: "segment \<Rightarrow> string" where
  "manual_kept (Plain s) = s"
| "manual_kept (Aside opening inner closing) = []"

fun wf_segment :: "segment \<Rightarrow> bool" where
  "wf_segment (Plain s) = list_all (\<lambda>c. \<not> is_open c) s"
| "wf_segment (Aside opening inner closing) =
     (is_open opening \<and> is_close closing
      \<and> list_all (\<lambda>c. \<not> is_close c \<and> \<not> is_newline c) inner)"

definition manual_clean :: "segment list \<Rightarrow> string" where
  "manual_clean segs = remove_commas (strip (concat (map manual_kept segs)))"

text \<open>The mean of the five largest values of a region among the given rows, of all its
  values when the region has fewer than five rows.\<close>

definition top5_mean :: "('a gdp_row_scheme) list \<Rightarrow> string \<Rightarrow> rat" where
  "top5_mean rows g = mean (nlargest 5 (map GDP_USD_billion (filter (\<lambda>r. Region r = g) rows)))"

text \<open>The same snapshots appended, one after the other, to a history file that did not
  exist and to a database without the table.\<close>

definition append_all :: "string \<Rightarrow> json_row list list \<Rightarrow> json_file" where
  "append_all path snapshots = fold (\<lambda>df file. fst (load df path file [])) snapshots Missing"

definition append_all_to_db :: "string \<Rightarrow> json_row list list \<Rightarrow> sqlite_db" where
  "append_all_to_db db_name snapshots =
     fold (\<lambda>df db. fst (load_to_db (map gdp_row.truncate df) db_name db [])) snapshots None"

text \<open>A persisted record with the given country, region, value in billions and time.\<close>

definition json_record :: "string \<Rightarrow> string \<Rightarrow> rat \<Rightarrow> nat \<Rightarrow> json_row" where
  "json_record c g v t =
     \<lparr>Country = c, Region = g, GDP_USD_billion = v, Processed_Time = t,
      GDP_USD_million = v * 1000\<rparr>"

section \<open>Cleaning: bracketed asides and separators\<close>

lemma strip_brackets_plain:
  "list_all (\<lambda>c. \<not> is_open c) p \<Longrightarrow> strip_brackets (p @ rest) = p @ strip_brackets rest"
  by (induction p) auto

lemma find_close_inner:
  "list_all (\<lambda>c. \<not> is_close c \<and> \<not> is_newline c) inner \<Longrightarrow> is_close closing \<Longrightarrow>
   find_close (inner @ closing # rest) = Some rest"
  by (induction inner) auto

lemma strip_brackets_segments:
  "list_all wf_segment segs \<Longrightarrow>
   strip_brackets (concat (map written segs) @ rest) = concat (map manual_kept segs) @ strip_brackets rest"
proof (induction segs)
  case Nil
  then show ?case by simp
next
  case (Cons seg segs)
  then have wf: "wf_segment seg" and IH:
    "strip_brackets (concat (map written segs) @ rest) = concat (map manual_kept segs) @ strip_brackets rest"
    by simp_all
  show ?case
  proof (cases seg)
    case (Plain p)
    with wf IH show ?thesis by (simp add: strip_brackets_plain)
  next
    case (Aside ob inner cb)
    with wf have "find_close (inner @ cb # concat (map written segs) @ rest)
        = Some (concat (map written segs) @ rest)"
      by (simp add: find_close_inner)
    with Aside wf IH show ?thesis by simp
  qed
qed

lemma find_close_strip_brackets:
  "find_close cs = None \<Longrightarrow> find_close (strip_brackets cs) = None"
proof (induction cs rule: strip_brackets.induct)
  case 1
  then show ?case by simp
next
  case (2 c cs)
  show ?case
  proof (cases "is_newline c")
    case True
    then have "\<not> is_open c" by (auto simp: is_newline_def is_open_def)
    with True "2.prems" show ?thesis by (simp split: if_splits)
  next
    case False
    with "2.prems" have nc: "\<not> is_close c" and none: "find_close cs = None"
      by (simp_all split: if_splits)
    with "2.IH" False show ?thesis by simp
  qed
qed

lemma strip_brackets_idem: "strip_brackets (strip_brackets s) = strip_brackets s"
proof (induction s rule: strip_brackets.induct)
  case 1
  then show ?case by simp
next
  case (2 c cs)
  show ?case
  proof (cases "is_open c")
    case False
    with "2.IH" show ?thesis by simp
  next
    case True
    show ?thesis
    proof (cases "find_close cs")
      case None
      with True "2.IH" show ?thesis by (simp add: find_close_strip_brackets)
    next
      case (Some rest)
      with True "2.IH" show ?thesis by simp
    qed
  qed
qed

text \<open>
  Claim C5. For every raw value the text handed to the numeric parser is the raw text with
  every bracketed aside deleted, then trimmed, then freed of commas: no comma is left, and a
  second pass finds no aside to delete. Whenever the raw text is a sequence of plain stretches
  and asides, the parsed magnitude is the one obtained by stripping the asides and the commas
  by hand and parsing the remainder.
\<close>

theorem clean_gdp_strips_asides_and_commas:
  assumes "list_all wf_segment segs"
  shows "clean_gdp (concat (map written segs)) = manual_clean segs
       \<and> gdp_value to_numeric (concat (map written segs)) = to_numeric (manual_clean segs)
       \<and> CHR '','' \<notin> set (clean_gdp s)
       \<and> strip_brackets (strip_brackets s) = strip_brackets s"
proof -
  have "strip_brackets (concat (map written segs) @ []) = concat (map manual_kept segs) @ strip_brackets []"
    using assms by (rule strip_brackets_segments)
  then have "clean_gdp (concat (map written segs)) = manual_clean segs"
    by (simp add: clean_gdp_def manual_clean_def)
  moreover have "CHR '','' \<notin> set (clean_gdp s)"
    by (simp add: clean_gdp_def remove_commas_def)
  ultimately show ?thesis
    by (simp add: gdp_value_def strip_brackets_idem)
qed

theorem clean_gdp_strips_asides_and_commas_witness:
  "list_all wf_segment [Plain ''18,080 '', Aside (CHR ''('') ''2024'' (CHR '')'')]
   \<and> gdp_value to_numeric_decimal ''18,080 (2024)'' = Some 18080
   \<and> clean_gdp ''18,080 (2024)'' = ''18080''"
proof -
  have wf: "list_all wf_segment [Plain ''18,080 '', Aside (CHR ''('') ''2024'' (CHR '')'')]"
    by (simp add: is_open_def is_close_def is_newline_def)
  have manual: "manual_clean [Plain ''18,080 '', Aside (CHR ''('') ''2024'' (CHR '')'')] = ''18080''"
    by (simp add: manual_clean_def strip_def remove_commas_def is_space_def)
  have parsed: "to_numeric_decimal ''18080'' = Some 18080"
    by (simp add: to_numeric_decimal_def unsigned_decimal_def is_digit_def digits_value_def)
  show ?thesis
    using clean_gdp_strips_asides_and_commas [OF wf, of to_numeric_decimal "[]"] wf manual parsed
    by simp
qed

section \<open>Load: the history only grows\<close>

lemma fst_load_records: "fst (load df path (Records old) lg) = Records (old @ df)"
  by (simp add: load_def)

lemma fst_load_missing: "fst (load df path Missing lg) = Records df"
  by (simp add: load_def)

lemma latest_df_eq_filter_max:
  "latest_df df = filter (\<lambda>r. Processed_Time r = Max (Processed_Time ` set df)) df"
  by (simp add: latest_df_def)

lemma Max_times_append:
  assumes "s \<noteq> []" "\<forall>r\<in>set s. Processed_Time r = t" "\<forall>r\<in>set others. Processed_Time r \<le> t"
  shows "Max (Processed_Time ` (set others \<union> set s)) = t"
proof (rule Max_eqI)
  show "finite (Processed_Time ` (set others \<union> set s))" by simp
  show "\<And>y. y \<in> Processed_Time ` (set others \<union> set s) \<Longrightarrow> y \<le> t"
    using assms by auto
  from assms(1) obtain r where "r \<in> set s" by (cases s) auto
  with assms(2) show "t \<in> Processed_Time ` (set others \<union> set s)" by force
qed

lemma latest_df_two_snapshots:
  assumes "s1 \<noteq> []" and "s2 \<noteq> []"
    and "\<forall>r\<in>set s1. Processed_Time r = t1"
    and "\<forall>r\<in>set s2. Processed_Time r = t2"
    and "t1 \<noteq> t2"
    and "\<forall>r\<in>set old. Processed_Time r < max t1 t2"
  shows "latest_df (old @ s1 @ s2) = (if t1 < t2 then s2 else s1)"
proof (cases "t1 < t2")
  case True
  have "Max (Processed_Time ` (set (old @ s1) \<union> set s2)) = t2"
    using assms True by (intro Max_times_append) (auto simp: max_def less_imp_le)
  then have m: "Max (Processed_Time ` set (old @ s1 @ s2)) = t2"
    by (simp add: Un_assoc)
  have "filter (\<lambda>r. Processed_Time r = t2) old = []"
    using assms(6) True by (auto simp: filter_empty_conv max_def)
  moreover have "filter (\<lambda>r. Processed_Time r = t2) s1 = []"
    using assms(3,5) by (auto simp: filter_empty_conv)
  moreover have "filter (\<lambda>r. Processed_Time r = t2) s2 = s2"
    using assms(4) by (auto simp: filter_id_conv)
  ultimately show ?thesis
    using True unfolding latest_df_eq_filter_max m by simp
next
  case False
  with assms(5) have lt: "t2 < t1" by simp
  have "Max (Processed_Time ` (set (old @ s2) \<union> set s1)) = t1"
    using assms lt by (intro Max_times_append) (auto simp: max_def less_imp_le)
  moreover have "set (old @ s2) \<union> set s1 = set (old @ s1 @ s2)" by auto
  ultimately have m: "Max (Processed_Time ` set (old @ s1 @ s2)) = t1"
    by simp
  have "filter (\<lambda>r. Processed_Time r = t1) old = []"
    using assms(6) lt by (auto simp: filter_empty_conv max_def)
  moreover have "filter (\<lambda>r. Processed_Time r = t1) s2 = []"
    using assms(4,5) by (auto simp: filter_empty_conv)
  moreover have "filter (\<lambda>r. Processed_Time r = t1) s1 = s1"
    using assms(3) by (auto simp: filter_id_conv)
  ultimately show ?thesis
    using False unfolding latest_df_eq_filter_max m by simp
qed



text \<open>
  Claim C8. When the history file exists and cannot be read, \<open>load\<close> returns normally,
  the file it writes holds exactly the records of the new snapshot, and the failure is a
  warning line of the log between the start and end lines of the phase.
\<close>

theorem load_unreadable_history:
  "load df path (Unreadable e) lg =
     (Records df,
      lg @ [''Load phase Started'',
            ''Load Warning: Failed to load history, starting new file. '' @ e,
            ''Load phase Ended: Total '' @ str_nat (length df) @ '' records stored''])"
  by (simp add: load_def log_progress_def)

section \<open>Transform: dropped rows, scaling, row order\<close>

lemma dropna_mem: "(c, m) \<in> set (dropna xs) \<longleftrightarrow> (c, Some m) \<in> set xs"
  by (induction xs rule: dropna.induct) auto

lemma dropna_countries:
  "map fst (dropna xs) = map fst (filter (\<lambda>cv. snd cv \<noteq> None) xs)"
  by (induction xs rule: dropna.induct) auto

lemma length_dropna:
  "length (dropna xs) = length xs - length (filter (\<lambda>cv. snd cv = None) xs)"
proof (induction xs rule: dropna.induct)
  case (2 country rows)
  have "length (filter (\<lambda>cv. snd cv = None) rows) \<le> length rows" by simp
  with 2 show ?case by simp
next
  case (3 country v rows)
  have "length (filter (\<lambda>cv. snd cv = None) rows) \<le> length rows" by simp
  with 3 show ?case by (simp add: Suc_diff_le)
qed simp

lemma set_sort_desc [simp]: "set (sort_desc key rows) = set rows"
  by (simp add: sort_desc_def)

lemma mset_sort_desc [simp]: "mset (sort_desc key rows) = mset rows"
  by (simp add: sort_desc_def)

lemma length_sort_desc [simp]: "length (sort_desc key rows) = length rows"
  by (simp add: sort_desc_def)

lemma sorted_sort_desc: "sorted_wrt (\<lambda>a b. key b \<le> key a) (sort_desc key rows)"
proof -
  have "sorted (map (\<lambda>r. - key r) (sort_key (\<lambda>r. - key r) rows))"
    by (rule sorted_sort_key)
  then show ?thesis
    by (simp add: sort_desc_def sorted_map)
qed

lemma rint_close: "\<bar>of_int (rint x) - x\<bar> \<le> 1 / 2"
proof -
  have "of_int \<lfloor>x\<rfloor> \<le> x" "x < of_int \<lfloor>x\<rfloor> + 1" by linarith+
  then show ?thesis
    by (auto simp: rint_def Let_def abs_if; linarith)
qed

lemma rint_nonneg: "0 \<le> x \<Longrightarrow> 0 \<le> rint x"
  by (auto simp: rint_def Let_def)

lemma round2_close: "\<bar>round2 x - x\<bar> \<le> 1 / 200"
proof -
  have "round2 x - x = (of_int (rint (x * 100)) - x * 100) / 100"
    by (simp add: round2_def field_simps)
  then have "\<bar>round2 x - x\<bar> = \<bar>of_int (rint (x * 100)) - x * 100\<bar> / 100"
    by (simp only: abs_divide abs_numeral)
  also have "\<dots> \<le> (1 / 2) / 100"
    using rint_close [of "x * 100"] by (intro divide_right_mono) simp_all
  finally show ?thesis by simp
qed

lemma round2_nonneg: "0 \<le> x \<Longrightarrow> 0 \<le> round2 x"
  by (simp add: round2_def rint_nonneg)

lemma fst_transform:
  "fst (transform to_numeric now region_map df lg) =
     sort_desc GDP_USD_billion (map (make_json_row now region_map)
       (dropna (map (\<lambda>(country, raw). (country, gdp_value to_numeric raw)) df)))"
  by (simp add: transform_def Let_def)

lemma fst_transform_with_sql:
  "fst (transform_with_sql to_numeric now region_map df lg) =
     map (make_gdp_row now region_map)
       (dropna (map (\<lambda>(country, raw). (country, gdp_value to_numeric raw)) df))"
  by (simp add: transform_with_sql_def Let_def)

lemma truncate_make_json_row:
  "gdp_row.truncate (make_json_row now region_map cv) = make_gdp_row now region_map cv"
  by (simp add: make_json_row_def make_gdp_row_def gdp_row.truncate_def)

lemmas eval_defs = transform_def transform_with_sql_def gdp_value_def clean_gdp_def strip_def
  remove_commas_def is_open_def is_close_def is_newline_def is_space_def
  to_numeric_decimal_def unsigned_decimal_def is_digit_def digits_value_def
  make_json_row_def make_gdp_row_def lookup_region_def round2_def rint_def sort_desc_def
  log_progress_def Let_def


lemma transform_with_sql_log:
  "snd (transform_with_sql to_numeric now region_map df lg)
     = lg @ [''Transform phase Started'', ''Transform phase Ended'']"
  by (simp add: transform_with_sql_def log_progress_def Let_def)

lemma transform_dropped_rows:
  "map Country (fst (transform_with_sql to_numeric now region_map df lg))
     = map fst (filter (\<lambda>(country, raw). gdp_value to_numeric raw \<noteq> None) df)
   \<and> length (fst (transform to_numeric now region_map df lg))
     = length df - length (filter (\<lambda>(country, raw). gdp_value to_numeric raw = None) df)"
proof -
  have "map Country (fst (transform_with_sql to_numeric now region_map df lg))
      = map fst (dropna (map (\<lambda>(country, raw). (country, gdp_value to_numeric raw)) df))"
    by (simp add: fst_transform_with_sql make_gdp_row_def comp_def)
  then show ?thesis
    by (simp add: fst_transform length_dropna dropna_countries filter_map comp_def
        case_prod_unfold)
qed

lemma transform_logs_dropped_count:
  "snd (transform to_numeric now region_map df lg) =
     (let n = length (filter (\<lambda>(country, raw). gdp_value to_numeric raw = None) df) in
      lg @ [''Transform phase Started'']
         @ (if 0 < n then [''Transform: Filtered out '' @ str_nat n @ '' rows with invalid GDP data'']
            else [])
         @ [''Transform phase Ended''])"
proof -
  let ?numeric = "map (\<lambda>(country, raw). (country, gdp_value to_numeric raw)) df"
  have le: "length (filter (\<lambda>cv. snd cv = None) ?numeric) \<le> length ?numeric"
    by (rule length_filter_le)
  have n: "length (filter (\<lambda>cv. snd cv = None) ?numeric)
      = length (filter (\<lambda>(country, raw). gdp_value to_numeric raw = None) df)"
    by (simp add: filter_map comp_def case_prod_unfold)
  have "length ?numeric - length (dropna ?numeric)
      = length (filter (\<lambda>(country, raw). gdp_value to_numeric raw = None) df)"
    using le unfolding length_dropna n [symmetric] by simp
  then show ?thesis
    by (simp add: transform_def log_progress_def Let_def del: zero_less_diff)
qed

text \<open>
  Claim C6. A batch with one row whose cleaned text is not numeric, through both transforms
  (the parser is the decimal parser; \<^verbatim>\<open>n/a\<close> is NaN for pandas as well). Both drop the
  row and go on. The JSON script writes the count to the log; the SQL script computes no
  count and its log has only the start and end lines of the phase.
\<close>

theorem transform_with_sql_reports_no_count:
  "transform_with_sql to_numeric_decimal 7 None
     [(''Korea'', ''1,800,000 (2024)''), (''Nowhere'', ''n/a'')] []
   = ([\<lparr>Country = ''Korea'', Region = ''Unknown'', GDP_USD_billion = 1800, Processed_Time = 7\<rparr>],
      [''Transform phase Started'', ''Transform phase Ended''])
   \<and> transform to_numeric_decimal 7 None
     [(''Korea'', ''1,800,000 (2024)''), (''Nowhere'', ''n/a'')] []
   = ([\<lparr>Country = ''Korea'', Region = ''Unknown'', GDP_USD_billion = 1800, Processed_Time = 7,
         GDP_USD_million = 1800000\<rparr>],
      [''Transform phase Started'', ''Transform: Filtered out 1 rows with invalid GDP data'',
       ''Transform phase Ended''])"
  by (simp add: eval_defs str_nat.simps)





text \<open>
  Claim C10. The rows the JSON script's transform returns are in descending order of
  GDP_USD_billion and are, up to the column GDP_USD_million, the same rows as the ones the
  SQL script's transform returns; the SQL script's transform returns the surviving rows in
  the order of its input.
\<close>

theorem transform_row_order:
  "sorted_wrt (\<lambda>a b. GDP_USD_billion b \<le> GDP_USD_billion a)
     (fst (transform to_numeric now region_map df lg))
   \<and> mset (map gdp_row.truncate (fst (transform to_numeric now region_map df lg)))
       = mset (fst (transform_with_sql to_numeric now region_map df lg'))
   \<and> map Country (fst (transform_with_sql to_numeric now region_map df lg'))
       = map fst (filter (\<lambda>(country, raw). gdp_value to_numeric raw \<noteq> None) df)"
proof -
  have "map Country (fst (transform_with_sql to_numeric now region_map df lg'))
      = map fst (dropna (map (\<lambda>(country, raw). (country, gdp_value to_numeric raw)) df))"
    by (simp add: fst_transform_with_sql make_gdp_row_def comp_def)
  also have "\<dots> = map fst (filter (\<lambda>(country, raw). gdp_value to_numeric raw \<noteq> None) df)"
    by (simp add: dropna_countries filter_map comp_def case_prod_unfold)
  finally have order: "map Country (fst (transform_with_sql to_numeric now region_map df lg'))
      = map fst (filter (\<lambda>(country, raw). gdp_value to_numeric raw \<noteq> None) df)" .
  have "mset (map gdp_row.truncate (fst (transform to_numeric now region_map df lg)))
      = mset (fst (transform_with_sql to_numeric now region_map df lg'))"
    by (simp add: fst_transform fst_transform_with_sql truncate_make_json_row
        multiset.map_comp comp_def)
  with order show ?thesis
    by (simp add: fst_transform sorted_sort_desc)
qed


lemma transform_reorders_example:
  "map Country (fst (transform to_numeric_decimal 7 None
      [(''Chile'', ''300,000''), (''Japan'', ''4,000,000'')] [])) = [''Japan'', ''Chile'']
   \<and> map Country (fst (transform_with_sql to_numeric_decimal 7 None
      [(''Chile'', ''300,000''), (''Japan'', ''4,000,000'')] [])) = [''Chile'', ''Japan'']"
  by (simp add: eval_defs)

section \<open>Analysis: what both scripts compute on a history with rows\<close>

lemma filter_enumerate_below:
  "i \<le> k \<Longrightarrow> filter (\<lambda>(j, v). j < i) (enumerate k xs) = []"
  by (induction xs arbitrary: k) auto

lemma take_enumerate_rank:
  "map snd (filter (\<lambda>(j, v). j < k + n) (enumerate k xs)) = take n xs"
proof (induction xs arbitrary: k n)
  case Nil
  then show ?case by simp
next
  case (Cons x xs)
  show ?case
  proof (cases n)
    case 0
    then show ?thesis by (simp add: filter_enumerate_below)
  next
    case (Suc n')
    with Cons.IH [of "Suc k" n'] show ?thesis by simp
  qed
qed

lemma take_enumerate_le:
  "map snd (filter (\<lambda>(j, v). j \<le> n) (enumerate 1 xs)) = take n xs"
proof -
  have "(\<lambda>(j::nat, v::'a). j \<le> n) = (\<lambda>(j, v). j < 1 + n)"
    by (auto simp: fun_eq_iff)
  then show ?thesis
    using take_enumerate_rank [of 1 n xs] by simp
qed

lemma group_keys_set [simp]: "set (group_keys regions) = set regions"
  by (simp add: group_keys_def)

lemma group_keys_distinct [simp]: "distinct (group_keys regions)"
  by (simp add: group_keys_def)

lemma group_keys_cong: "set xs = set ys \<Longrightarrow> group_keys xs = group_keys ys"
  unfolding group_keys_def
  by (metis sorted_list_of_set_sort_remdups)

lemma filter_concat_block:
  assumes "distinct keys" "g \<in> set keys" "\<And>k e. e \<in> set (block k) \<Longrightarrow> fst e = k"
  shows "filter (\<lambda>e. fst e = g) (concat (map block keys)) = block g"
  using assms(1,2)
proof (induction keys)
  case Nil
  then show ?case by simp
next
  case (Cons k keys)
  have own: "filter (\<lambda>e. fst e = g) (block g) = block g"
    using assms(3) by (auto simp: filter_id_conv)
  have other: "filter (\<lambda>e. fst e = g) (block k') = []" if "k' \<noteq> g" for k'
    using assms(3) that by (auto simp: filter_empty_conv)
  have none: "filter (\<lambda>e. fst e = g) (concat (map block ks)) = []" if "g \<notin> set ks" for ks
    using that other by (induction ks) auto
  show ?case
  proof (cases "k = g")
    case True
    with Cons.prems have "g \<notin> set keys" by simp
    with True own none show ?thesis by simp
  next
    case False
    with Cons other show ?thesis by simp
  qed
qed

lemma ranked_gdp_region:
  assumes "g \<in> Region ` set rows"
  shows "filter (\<lambda>e. fst e = g) (ranked_gdp rows)
       = map (\<lambda>(rank, v). (g, v, rank))
           (enumerate 1 (sort_desc (\<lambda>v. v) (map GDP_USD_billion (filter (\<lambda>r. Region r = g) rows))))"
  unfolding ranked_gdp_def Let_def
  by (rule filter_concat_block) (use assms in auto)

lemma length_nlargest: "length (nlargest n xs) = min n (length xs)"
  by (simp add: nlargest_def sort_desc_def)

lemma ranked_top_values:
  assumes "g \<in> Region ` set rows"
  shows "map (\<lambda>(g', v, rank). v)
           (filter (\<lambda>(g', v, rank). g' = g) (filter (\<lambda>(g', v, rank). rank \<le> 5) (ranked_gdp rows)))
       = nlargest 5 (map GDP_USD_billion (filter (\<lambda>r. Region r = g) rows))"
proof -
  let ?part = "sort_desc (\<lambda>v. v) (map GDP_USD_billion (filter (\<lambda>r. Region r = g) rows))"
  have "filter (\<lambda>(g', v, rank). g' = g) (filter (\<lambda>(g', v, rank). rank \<le> 5) (ranked_gdp rows))
      = filter (\<lambda>(g', v, rank). rank \<le> 5) (filter (\<lambda>e. fst e = g) (ranked_gdp rows))"
    by (simp add: case_prod_unfold conj_commute)
  also have "\<dots> = map (\<lambda>(rank, v). (g, v, rank)) (filter (\<lambda>(j, v). j \<le> 5) (enumerate 1 ?part))"
    unfolding ranked_gdp_region [OF assms]
    by (simp add: filter_map comp_def case_prod_unfold)
  finally have "map (\<lambda>(g', v, rank). v)
      (filter (\<lambda>(g', v, rank). g' = g) (filter (\<lambda>(g', v, rank). rank \<le> 5) (ranked_gdp rows)))
      = map snd (filter (\<lambda>(j, v). j \<le> 5) (enumerate 1 ?part))"
    by (simp add: comp_def case_prod_unfold)
  then show ?thesis
    unfolding take_enumerate_le by (simp add: nlargest_def)
qed

lemma ranked_top_keys:
  "set (map (\<lambda>(g, v, rank). g) (filter (\<lambda>(g, v, rank). rank \<le> 5) (ranked_gdp rows)))
     = Region ` set rows"
proof (intro equalityI subsetI)
  fix g assume "g \<in> set (map (\<lambda>(g, v, rank). g) (filter (\<lambda>(g, v, rank). rank \<le> 5) (ranked_gdp rows)))"
  then show "g \<in> Region ` set rows"
    by (auto simp: ranked_gdp_def Let_def)
next
  fix g assume g: "g \<in> Region ` set rows"
  then have "map GDP_USD_billion (filter (\<lambda>r. Region r = g) rows) \<noteq> []"
    by (auto simp: filter_empty_conv)
  then have "0 < length (nlargest 5 (map GDP_USD_billion (filter (\<lambda>r. Region r = g) rows)))"
    unfolding length_nlargest by simp
  then have "nlargest 5 (map GDP_USD_billion (filter (\<lambda>r. Region r = g) rows)) \<noteq> []"
    by (cases "nlargest 5 (map GDP_USD_billion (filter (\<lambda>r. Region r = g) rows))") simp_all
  then have "filter (\<lambda>(g', v, rank). g' = g) (filter (\<lambda>(g', v, rank). rank \<le> 5) (ranked_gdp rows)) \<noteq> []"
    unfolding ranked_top_values [OF g, symmetric] by simp
  then obtain e where "e \<in> set (filter (\<lambda>(g', v, rank). rank \<le> 5) (ranked_gdp rows))" "fst e = g"
    by (auto simp: filter_empty_conv)
  then show "g \<in> set (map (\<lambda>(g, v, rank). g) (filter (\<lambda>(g, v, rank). rank \<le> 5) (ranked_gdp rows)))"
    by (force simp: case_prod_unfold)
qed

lemma run_analysis_nonempty:
  assumes "df \<noteq> []"
  shows "run_analysis df lg =
    (Inr \<lparr>latest_time = Some (Max (Processed_Time ` set df)),
          high_gdp_df = map (\<lambda>r. (Country r, Region r, GDP_USD_billion r))
                          (filter (\<lambda>r. 100 \<le> GDP_USD_billion r) (latest_df df)),
          region_avg = sort_desc snd (map (\<lambda>g. (g, top5_mean (latest_df df) g))
                          (group_keys (map Region (latest_df df))))\<rparr>,
     lg @ [''Analysis phase Started'', ''Analysis phase Ended''])"
  using assms by (simp add: run_analysis_def top5_mean_def log_progress_def Let_def)

lemma sql_region_averages:
  "map (\<lambda>g. (g, sqlite_round2 (mean
           (map (\<lambda>(g', v, rank). v)
              (filter (\<lambda>(g', v, rank). g' = g)
                 (filter (\<lambda>(g, v, rank). rank \<le> 5) (ranked_gdp sel)))))))
     (group_keys (map (\<lambda>(g, v, rank). g) (filter (\<lambda>(g, v, rank). rank \<le> 5) (ranked_gdp sel))))
   = map (\<lambda>g. (g, sqlite_round2 (top5_mean sel g))) (group_keys (map Region sel))"
proof -
  have keys: "group_keys (map (\<lambda>(g, v, rank). g) (filter (\<lambda>(g, v, rank). rank \<le> 5) (ranked_gdp sel)))
      = group_keys (map Region sel)"
    using ranked_top_keys [of sel] by (intro group_keys_cong) simp
  show ?thesis
    unfolding keys
    by (rule map_cong [OF refl]) (simp add: ranked_top_values top5_mean_def del: filter_filter)
qed

lemma run_sql_analysis_nonempty:
  assumes "rows \<noteq> []"
  shows "run_sql_analysis table_name (Some rows) lg =
    (Inr \<lparr>latest_time = Some (Max (Processed_Time ` set rows)),
          high_gdp_df = sort_desc (\<lambda>(c, g, v). v)
                          (map (\<lambda>r. (Country r, Region r, GDP_USD_billion r))
                             (filter (\<lambda>r. 100 \<le> GDP_USD_billion r) (latest_df rows))),
          region_avg = sort_desc snd (map (\<lambda>g. (g, sqlite_round2 (top5_mean (latest_df rows) g)))
                          (group_keys (map Region (latest_df rows))))\<rparr>,
     lg @ [''Analysis phase Started'', ''Analysis phase Ended''])"
  using assms
  by (simp add: run_sql_analysis_def Let_def log_progress_def latest_df_def sql_region_averages
      del: filter_filter)

lemma nlargest_largest:
  "length (nlargest n xs) = min n (length xs)
   \<and> mset (nlargest n xs) \<subseteq># mset xs
   \<and> (\<forall>x \<in> set (nlargest n xs). \<forall>y \<in># mset xs - mset (nlargest n xs). y \<le> x)"
proof -
  let ?ys = "sort_desc (\<lambda>v. v) xs"
  have split: "mset xs = mset (take n ?ys) + mset (drop n ?ys)"
    by (metis append_take_drop_id mset_append mset_sort_desc)
  have "sorted_wrt (\<lambda>a b. b \<le> a) (take n ?ys @ drop n ?ys)"
    using sorted_sort_desc [of "\<lambda>v. v" xs] by simp
  then have "\<forall>x \<in> set (take n ?ys). \<forall>y \<in> set (drop n ?ys). y \<le> x"
    unfolding sorted_wrt_append by blast
  moreover have "mset xs - mset (take n ?ys) = mset (drop n ?ys)"
    unfolding split by simp
  moreover have "mset (take n ?ys) \<subseteq># mset xs"
    unfolding split by simp
  ultimately show ?thesis
    by (simp add: nlargest_def)
qed

lemma averages_table:
  assumes "distinct keys"
  shows "distinct (map fst (sort_desc snd (map (\<lambda>g. (g, f g)) keys)))
       \<and> set (map fst (sort_desc snd (map (\<lambda>g. (g, f g)) keys))) = set keys
       \<and> (\<forall>(g, v) \<in> set (sort_desc snd (map (\<lambda>g. (g, f g)) keys)). v = f g)
       \<and> sorted_wrt (\<lambda>x y. snd y \<le> snd x) (sort_desc snd (map (\<lambda>g. (g, f g)) keys))"
proof -
  let ?t = "sort_desc snd (map (\<lambda>g. (g, f g)) keys)"
  have "mset (map fst ?t) = mset keys"
    by (simp add: multiset.map_comp comp_def)
  then have "distinct (map fst ?t)"
    using assms by (metis mset_eq_imp_distinct_iff)
  moreover have "set (map fst ?t) = set keys"
    by (simp add: image_image)
  moreover have "\<forall>(g, v) \<in> set ?t. v = f g"
    by auto
  ultimately show ?thesis
    using sorted_sort_desc [of snd "map (\<lambda>g. (g, f g)) keys"] by simp
qed

lemma run_sql_analysis_empty_table:
  "fst (run_sql_analysis table_name (Some []) lg)
     = Inr \<lparr>latest_time = None, high_gdp_df = [], region_avg = []\<rparr>"
  by (simp add: run_sql_analysis_def Let_def ranked_gdp_def group_keys_def sort_desc_def)

section \<open>Averages of the five largest values per region\<close>




section \<open>Countries at or above 100\<close>

text \<open>
  Claim C4, as stated, fails for the JSON script, whose analysis filters without sorting:
  on the claim's own magnitudes, stored as 120, 99.9, 100, 500, the table is 120, 100, 500.
\<close>

theorem threshold_report_unsorted:
  "fst (run_analysis
     [json_record ''A'' ''Asia'' 120 1, json_record ''B'' ''Asia'' (999 / 10) 1,
      json_record ''C'' ''Asia'' 100 1, json_record ''D'' ''Asia'' 500 1] [])
   = Inr \<lparr>latest_time = Some 1,
          high_gdp_df = [(''A'', ''Asia'', 120), (''C'', ''Asia'', 100), (''D'', ''Asia'', 500)],
          region_avg = [(''Asia'', 8199 / 40)]\<rparr>"
  by code_simp

text \<open>
  Claim C4, amended. On a history with rows, the table of either script holds exactly the
  rows of the latest snapshot with GDP_USD_billion at least 100 (the threshold is the
  constant 100). The SQL script returns them in descending order of GDP_USD_billion. The
  JSON script returns them in the order in which they are stored, which is descending when
  the latest snapshot is stored in descending order, as its transform writes it.
\<close>

theorem threshold_report_rows:
  assumes "df \<noteq> []" and "rows \<noteq> []"
  shows "(\<exists>a lg'. run_analysis df lg = (Inr a, lg')
            \<and> high_gdp_df a = map (\<lambda>r. (Country r, Region r, GDP_USD_billion r))
                                (filter (\<lambda>r. 100 \<le> GDP_USD_billion r) (latest_df df))
            \<and> (sorted_wrt (\<lambda>x y. GDP_USD_billion y \<le> GDP_USD_billion x) (latest_df df)
                 \<longrightarrow> sorted_wrt (\<lambda>x y. snd (snd y) \<le> snd (snd x)) (high_gdp_df a)))
       \<and> (\<exists>b lg'. run_sql_analysis table_name (Some rows) lg = (Inr b, lg')
            \<and> mset (high_gdp_df b) = mset (map (\<lambda>r. (Country r, Region r, GDP_USD_billion r))
                                (filter (\<lambda>r. 100 \<le> GDP_USD_billion r) (latest_df rows)))
            \<and> sorted_wrt (\<lambda>x y. snd (snd y) \<le> snd (snd x)) (high_gdp_df b))"
proof -
  have "sorted_wrt (\<lambda>x y. snd (snd y) \<le> snd (snd x))
          (map (\<lambda>r. (Country r, Region r, GDP_USD_billion r))
             (filter (\<lambda>r. 100 \<le> GDP_USD_billion r) (latest_df df)))"
    if "sorted_wrt (\<lambda>x y. GDP_USD_billion y \<le> GDP_USD_billion x) (latest_df df)"
    using sorted_wrt_filter [OF that, of "\<lambda>r. 100 \<le> GDP_USD_billion r"]
    by (simp add: sorted_wrt_map)
  then have doc: "\<exists>a lg'. run_analysis df lg = (Inr a, lg')
            \<and> high_gdp_df a = map (\<lambda>r. (Country r, Region r, GDP_USD_billion r))
                                (filter (\<lambda>r. 100 \<le> GDP_USD_billion r) (latest_df df))
            \<and> (sorted_wrt (\<lambda>x y. GDP_USD_billion y \<le> GDP_USD_billion x) (latest_df df)
                 \<longrightarrow> sorted_wrt (\<lambda>x y. snd (snd y) \<le> snd (snd x)) (high_gdp_df a))"
    unfolding run_analysis_nonempty [OF assms(1)] by simp
  have key: "(\<lambda>(c, g, v). v) = (\<lambda>x :: string \<times> string \<times> rat. snd (snd x))"
    by (simp add: fun_eq_iff)
  have sql: "\<exists>b lg'. run_sql_analysis table_name (Some rows) lg = (Inr b, lg')
            \<and> mset (high_gdp_df b) = mset (map (\<lambda>r. (Country r, Region r, GDP_USD_billion r))
                                (filter (\<lambda>r. 100 \<le> GDP_USD_billion r) (latest_df rows)))
            \<and> sorted_wrt (\<lambda>x y. snd (snd y) \<le> snd (snd x)) (high_gdp_df b)"
    unfolding run_sql_analysis_nonempty [OF assms(2)] key
    using sorted_sort_desc [of "\<lambda>x. snd (snd x)"] by simp
  from doc sql show ?thesis by blast
qed

theorem threshold_report_rows_witness:
  "[json_record ''D'' ''Asia'' 500 1, json_record ''A'' ''Asia'' 120 1,
    json_record ''C'' ''Asia'' 100 1, json_record ''B'' ''Asia'' (999 / 10) 1] \<noteq> []
   \<and> sorted_wrt (\<lambda>x y. GDP_USD_billion y \<le> GDP_USD_billion x)
       (latest_df [json_record ''D'' ''Asia'' 500 1, json_record ''A'' ''Asia'' 120 1,
          json_record ''C'' ''Asia'' 100 1, json_record ''B'' ''Asia'' (999 / 10) 1])
   \<and> fst (run_analysis
       [json_record ''D'' ''Asia'' 500 1, json_record ''A'' ''Asia'' 120 1,
        json_record ''C'' ''Asia'' 100 1, json_record ''B'' ''Asia'' (999 / 10) 1] [])
     = Inr \<lparr>latest_time = Some 1,
          high_gdp_df = [(''D'', ''Asia'', 500), (''A'', ''Asia'', 120), (''C'', ''Asia'', 100)],
          region_avg = [(''Asia'', 8199 / 40)]\<rparr>
   \<and> fst (run_sql_analysis ''Countries_by_GDP'' (Some (map gdp_row.truncate
       [json_record ''A'' ''Asia'' 120 1, json_record ''B'' ''Asia'' (999 / 10) 1,
        json_record ''C'' ''Asia'' 100 1, json_record ''D'' ''Asia'' 500 1])) [])
     = Inr \<lparr>latest_time = Some 1,
          high_gdp_df = [(''D'', ''Asia'', 500), (''A'', ''Asia'', 120), (''C'', ''Asia'', 100)],
          region_avg = [(''Asia'', 20498 / 100)]\<rparr>"
proof -
  let ?df = "[json_record ''D'' ''Asia'' 500 1, json_record ''A'' ''Asia'' 120 1,
    json_record ''C'' ''Asia'' 100 1, json_record ''B'' ''Asia'' (999 / 10) 1]"
  let ?rows = "map gdp_row.truncate
       [json_record ''A'' ''Asia'' 120 1, json_record ''B'' ''Asia'' (999 / 10) 1,
        json_record ''C'' ''Asia'' 100 1, json_record ''D'' ''Asia'' 500 1]"
  have ne: "?df \<noteq> []" and ne': "?rows \<noteq> []" by simp_all
  have sorted: "sorted_wrt (\<lambda>x y. GDP_USD_billion y \<le> GDP_USD_billion x) (latest_df ?df)"
    by code_simp
  have doc: "fst (run_analysis ?df [])
     = Inr \<lparr>latest_time = Some 1,
          high_gdp_df = [(''D'', ''Asia'', 500), (''A'', ''Asia'', 120), (''C'', ''Asia'', 100)],
          region_avg = [(''Asia'', 8199 / 40)]\<rparr>"
    by code_simp
  have sql: "fst (run_sql_analysis ''Countries_by_GDP'' (Some ?rows) [])
     = Inr \<lparr>latest_time = Some 1,
          high_gdp_df = [(''D'', ''Asia'', 500), (''A'', ''Asia'', 120), (''C'', ''Asia'', 100)],
          region_avg = [(''Asia'', 20498 / 100)]\<rparr>"
    by code_simp
  from threshold_report_rows [OF ne ne', of "[]" "''Countries_by_GDP''"] ne sorted doc sql
  show ?thesis by blast
qed

text \<open>In the pipeline of the JSON script the latest snapshot is the output of its transform,
  which is sorted: appended behind older records, it makes the table of the analysis
  descending.\<close>

lemma latest_df_appended_snapshot:
  assumes "s \<noteq> []" "\<forall>r\<in>set s. Processed_Time r = t" "\<forall>r\<in>set old. Processed_Time r < t"
  shows "latest_df (old @ s) = s"
proof -
  have "Max (Processed_Time ` (set old \<union> set s)) = t"
    using assms by (intro Max_times_append) (auto simp: less_imp_le)
  then have m: "Max (Processed_Time ` set (old @ s)) = t" by simp
  have "filter (\<lambda>r. Processed_Time r = t) old = []"
    using assms(3) by (auto simp: filter_empty_conv)
  moreover have "filter (\<lambda>r. Processed_Time r = t) s = s"
    using assms(2) by (auto simp: filter_id_conv)
  ultimately show ?thesis
    unfolding latest_df_eq_filter_max m by simp
qed

lemma transform_times:
  "\<forall>r \<in> set (fst (transform to_numeric now region_map df lg)). Processed_Time r = now"
  by (auto simp: fst_transform make_json_row_def)

lemma pipeline_threshold_report_sorted:
  assumes "fst (transform to_numeric now region_map raw lg0) \<noteq> []"
    and "\<forall>r\<in>set old. Processed_Time r < now"
  shows "\<exists>a lg'. run_analysis (old @ fst (transform to_numeric now region_map raw lg0)) lg = (Inr a, lg')
       \<and> high_gdp_df a = map (\<lambda>r. (Country r, Region r, GDP_USD_billion r))
            (filter (\<lambda>r. 100 \<le> GDP_USD_billion r) (fst (transform to_numeric now region_map raw lg0)))
       \<and> sorted_wrt (\<lambda>x y. snd (snd y) \<le> snd (snd x)) (high_gdp_df a)"
proof -
  let ?s = "fst (transform to_numeric now region_map raw lg0)"
  have latest: "latest_df (old @ ?s) = ?s"
    using assms transform_times by (intro latest_df_appended_snapshot) auto
  have ne: "old @ ?s \<noteq> []" using assms(1) by simp
  have "sorted_wrt (\<lambda>x y. GDP_USD_billion y \<le> GDP_USD_billion x) ?s"
    by (simp add: fst_transform sorted_sort_desc)
  then have "sorted_wrt (\<lambda>x y. GDP_USD_billion y \<le> GDP_USD_billion x)
      (filter (\<lambda>r. 100 \<le> GDP_USD_billion r) ?s)"
    by (rule sorted_wrt_filter)
  then show ?thesis
    unfolding run_analysis_nonempty [OF ne] latest
    by (simp add: sorted_wrt_map)
qed

section \<open>Analysis without a history\<close>



section \<open>The two scripts on the same snapshots\<close>

lemma latest_df_truncate:
  "latest_df (map gdp_row.truncate df) = map gdp_row.truncate (latest_df df)"
  by (simp add: latest_df_def filter_map comp_def image_image gdp_row.truncate_def)

lemma top5_mean_truncate:
  "top5_mean (map gdp_row.truncate rows) g = top5_mean rows g"
  by (simp add: top5_mean_def filter_map comp_def gdp_row.truncate_def)

lemma fold_load_records:
  "fold (\<lambda>df file. fst (load df path file [])) snapshots (Records old)
     = Records (old @ concat snapshots)"
  by (induction snapshots arbitrary: old) (simp_all add: fst_load_records)

lemma append_all_eq:
  "append_all path snapshots = (if snapshots = [] then Missing else Records (concat snapshots))"
  by (cases snapshots) (simp_all add: append_all_def fst_load_missing fold_load_records)

lemma fst_load_to_db:
  "fst (load_to_db df db_name db lg) = Some ((case db of None \<Rightarrow> [] | Some rows \<Rightarrow> rows) @ df)"
  by (simp add: load_to_db_def Let_def)

lemma fold_load_to_db:
  "fold (\<lambda>df db. Some ((case db of None \<Rightarrow> [] | Some rows \<Rightarrow> rows) @ map gdp_row.truncate df))
     snapshots (Some old)
     = Some (old @ map gdp_row.truncate (concat snapshots))"
  by (induction snapshots arbitrary: old) simp_all

lemma append_all_to_db_eq:
  "append_all_to_db db_name snapshots
     = (if snapshots = [] then None else Some (map gdp_row.truncate (concat snapshots)))"
  by (cases snapshots) (simp_all add: append_all_to_db_def fst_load_to_db fold_load_to_db)




end
